theory Spec2Isabelle
  imports Complex_Main
begin

section \<open>Errors and small helpers\<close>

text \<open>
  Every exception the modelled Python code can raise is a value of \<open>error\<close>; a function
  that can raise returns \<open>error + 'a\<close> with \<open>Inl\<close> for the exception.
\<close>

datatype error =
    ValueError string
  | NameError string
  | AttributeError string
  | KeyError string
  | TypeError string
  | IndexError string
  | FileNotFoundError string
  | JSONDecodeError
  | ExternalError string

text \<open>Decimal rendering of a natural number, as \<open>str(n)\<close> inside an f-string.\<close>

definition digit_char :: "nat \<Rightarrow> char" where
  "digit_char d = ''0123456789'' ! d"

fun string_of_nat :: "nat \<Rightarrow> string" where
  "string_of_nat n =
     (if n < 10 then [digit_char n]
      else string_of_nat (n div 10) @ [digit_char (n mod 10)])"

declare string_of_nat.simps [simp del]

text \<open>
  Running a Python \<open>map\<close> whose function can raise, consumed eagerly by \<open>tuple\<close> or
  \<open>list\<close>: elements are processed left to right and the first exception aborts.
\<close>

fun map_raise :: "('a \<Rightarrow> error + 'b) \<Rightarrow> 'a list \<Rightarrow> error + 'b list" where
  "map_raise f [] = Inr []"
| "map_raise f (x # xs) =
     (case f x of
        Inl e \<Rightarrow> Inl e
      | Inr y \<Rightarrow> (case map_raise f xs of Inl e \<Rightarrow> Inl e | Inr ys \<Rightarrow> Inr (y # ys)))"

text \<open>
  Python's \<open>all(map(f, xs))\<close>: stops at the first false element, so an exception of a
  later element is never raised.
\<close>

fun all_raise :: "('a \<Rightarrow> error + bool) \<Rightarrow> 'a list \<Rightarrow> error + bool" where
  "all_raise f [] = Inr True"
| "all_raise f (x # xs) =
     (case f x of
        Inl e \<Rightarrow> Inl e
      | Inr b \<Rightarrow> (if b then all_raise f xs else Inr False))"


section \<open>\<open>edge/space/space.py\<close>: \<open>DiscreteProductSpace\<close>\<close>

text \<open>
  A sub-space is any object with the \<open>DiscreteSpace\<close> interface. Its three methods are
  taken as they are (they live in subclasses outside this file of the repository).
\<close>

record ('x, 'i) discrete_space =
  contains_of :: "'x \<Rightarrow> error + bool"
  getitem_of :: "'i \<Rightarrow> error + 'x"
  indexof_of :: "'x \<Rightarrow> error + 'i"

definition size_mismatch :: "nat \<Rightarrow> nat \<Rightarrow> string" where
  "size_mismatch expected received =
     ''Size mismatch: expected '' @ string_of_nat expected @
     '' coordinates, received '' @ string_of_nat received"

definition dps_contains ::
  "('x, 'i) discrete_space list \<Rightarrow> 'x list \<Rightarrow> error + bool" where
  "dps_contains sets coordinates =
     (if length coordinates \<noteq> length sets
      then Inl (ValueError (size_mismatch (length sets) (length coordinates)))
      else all_raise (\<lambda>(x, s). contains_of s x) (zip coordinates sets))"

definition dps_getitem ::
  "('x, 'i) discrete_space list \<Rightarrow> 'i list \<Rightarrow> error + 'x list" where
  "dps_getitem sets index =
     (if length index \<noteq> length sets
      then Inl (ValueError (size_mismatch (length sets) (length index)))
      else map_raise (\<lambda>(ind, s). getitem_of s ind) (zip index sets))"

text \<open>
  In \<open>indexof\<close> the message of the \<open>ValueError\<close> is an f-string that reads
  \<open>len(coordinates)\<close>, but the parameter is called \<open>x\<close> and no name \<open>coordinates\<close> is
  in scope: building the message raises \<open>NameError\<close> before the \<open>ValueError\<close> exists.
\<close>

definition dps_indexof ::
  "('x, 'i) discrete_space list \<Rightarrow> 'x list \<Rightarrow> error + 'i list" where
  "dps_indexof sets x =
     (if length x \<noteq> length sets
      then Inl (NameError ''name 'coordinates' is not defined'')
      else map_raise (\<lambda>(x, s). indexof_of s x) (zip x sets))"


section \<open>The numerical library, as far as the safety measure uses it\<close>

text \<open>
  A float is modelled by an exact real number or one of the special values of IEEE
  arithmetic that decide the control flow of \<open>level_set\<close>: negative zero, the two
  infinities and NaN. \<open>Fin 0\<close> is positive zero. A result whose magnitude reaches the
  overflow threshold of float64 becomes an infinity; rounding of the results in range
  (and underflow) is not modelled.
\<close>

datatype npfloat = Fin real | NZero | PInf | NInf | NaN

fun is_finite :: "npfloat \<Rightarrow> bool" where
  "is_finite (Fin x) = True"
| "is_finite NZero = True"
| "is_finite a = False"

fun is_inf :: "npfloat \<Rightarrow> bool" where
  "is_inf PInf = True"
| "is_inf NInf = True"
| "is_inf a = False"

fun is_zero :: "npfloat \<Rightarrow> bool" where
  "is_zero (Fin x) = (x = 0)"
| "is_zero NZero = True"
| "is_zero a = False"

fun sign_bit :: "npfloat \<Rightarrow> bool" where
  "sign_bit (Fin x) = (x < 0)"
| "sign_bit NZero = True"
| "sign_bit NInf = True"
| "sign_bit a = False"

text \<open>The real number a finite float stands for.\<close>

fun value_of :: "npfloat \<Rightarrow> real" where
  "value_of (Fin x) = x"
| "value_of a = 0"

definition signed_inf :: "bool \<Rightarrow> npfloat" where
  "signed_inf negative = (if negative then NInf else PInf)"

definition signed_zero :: "bool \<Rightarrow> npfloat" where
  "signed_zero negative = (if negative then NZero else Fin 0)"

text \<open>
  Rounding to nearest turns a result into an infinity from \<open>2^1024 - 2^970\<close> on, half a
  unit in the last place above the largest float64.
\<close>

definition overflow_threshold :: real where
  "overflow_threshold = 2 ^ 1024 - 2 ^ 970"

definition overflows :: "real \<Rightarrow> bool" where
  "overflows r = (overflow_threshold \<le> \<bar>r\<bar>)"

definition float_result :: "real \<Rightarrow> npfloat" where
  "float_result r = (if overflows r then signed_inf (r < 0) else Fin r)"

text \<open>
  Subtraction. A difference that is zero is positive zero, except \<open>(-0.0) - 0.0\<close>.
\<close>

definition np_sub :: "npfloat \<Rightarrow> npfloat \<Rightarrow> npfloat" where
  "np_sub a b =
     (if a = NaN \<or> b = NaN then NaN
      else if is_inf a then (if b = a then NaN else a)
      else if is_inf b then signed_inf (b = PInf)
      else if value_of a - value_of b = 0 then signed_zero (a = NZero \<and> b = Fin 0)
      else float_result (value_of a - value_of b))"

definition sub_invalid :: "npfloat \<Rightarrow> npfloat \<Rightarrow> bool" where
  "sub_invalid a b = (is_inf a \<and> b = a)"

definition sub_overflow :: "npfloat \<Rightarrow> npfloat \<Rightarrow> bool" where
  "sub_overflow a b = (is_finite a \<and> is_finite b \<and> overflows (value_of a - value_of b))"

text \<open>The square root keeps the sign of a zero; a negative argument is invalid.\<close>

fun np_sqrt :: "npfloat \<Rightarrow> npfloat" where
  "np_sqrt (Fin x) = (if 0 \<le> x then Fin (sqrt x) else NaN)"
| "np_sqrt NZero = NZero"
| "np_sqrt PInf = PInf"
| "np_sqrt NInf = NaN"
| "np_sqrt NaN = NaN"

fun sqrt_invalid :: "npfloat \<Rightarrow> bool" where
  "sqrt_invalid (Fin x) = (x < 0)"
| "sqrt_invalid NInf = True"
| "sqrt_invalid a = False"

fun np_abs :: "npfloat \<Rightarrow> npfloat" where
  "np_abs (Fin x) = Fin \<bar>x\<bar>"
| "np_abs NZero = Fin 0"
| "np_abs PInf = PInf"
| "np_abs NInf = PInf"
| "np_abs NaN = NaN"

text \<open>
  Division. The sign of the result is the product of the signs, also for a zero
  divisor; a finite non-zero number over a zero is an infinity and a division by zero;
  an infinity over a zero is an infinity and no error; zero over zero and infinity over
  infinity are invalid.
\<close>

definition np_div :: "npfloat \<Rightarrow> npfloat \<Rightarrow> npfloat" where
  "np_div a b =
     (if a = NaN \<or> b = NaN then NaN
      else if is_inf a
        then (if is_inf b then NaN else signed_inf (sign_bit a \<noteq> sign_bit b))
      else if is_inf b then signed_zero (sign_bit a \<noteq> sign_bit b)
      else if is_zero b
        then (if is_zero a then NaN else signed_inf (sign_bit a \<noteq> sign_bit b))
      else if is_zero a then signed_zero (sign_bit a \<noteq> sign_bit b)
      else float_result (value_of a / value_of b))"

definition div_by_zero :: "npfloat \<Rightarrow> npfloat \<Rightarrow> bool" where
  "div_by_zero a b = (is_finite a \<and> \<not> is_zero a \<and> is_zero b)"

definition div_overflow :: "npfloat \<Rightarrow> npfloat \<Rightarrow> bool" where
  "div_overflow a b =
     (is_finite a \<and> is_finite b \<and> \<not> is_zero b \<and> overflows (value_of a / value_of b))"

definition div_invalid :: "npfloat \<Rightarrow> npfloat \<Rightarrow> bool" where
  "div_invalid a b = ((is_zero a \<and> is_zero b) \<or> (is_inf a \<and> is_inf b))"

text \<open>The comparison \<open>a > b\<close>: false whenever an operand is NaN; the two zeros are equal.\<close>

definition np_gt :: "npfloat \<Rightarrow> npfloat \<Rightarrow> bool" where
  "np_gt a b =
     (if a = NaN \<or> b = NaN then False
      else if a = PInf then b \<noteq> PInf
      else if a = NInf then False
      else if b = PInf then False
      else if b = NInf then True
      else value_of b < value_of a)"

text \<open>
  \<open>scipy.stats.norm.cdf\<close> is not code of the repository: on finite arguments it is the
  parameter \<open>cdf\<close>; at the special values it returns 1, 0 and NaN.
\<close>

fun np_cdf :: "(real \<Rightarrow> real) \<Rightarrow> npfloat \<Rightarrow> npfloat" where
  "np_cdf cdf (Fin x) = Fin (cdf x)"
| "np_cdf cdf NZero = Fin (cdf 0)"
| "np_cdf cdf PInf = Fin 1"
| "np_cdf cdf NInf = Fin 0"
| "np_cdf cdf NaN = NaN"

text \<open>
  The floating-point warnings of the array operations. One operation warns once per
  kind of floating-point error, however many elements raise it, and reports the kinds
  in the order division by zero, overflow, invalid value.
\<close>

datatype np_warning =
    OverflowSubtract | InvalidSubtract | InvalidSqrt
  | DivideByZero | OverflowDivide | InvalidDivide

text \<open>An array: its shape and its elements in row-major order.\<close>

datatype 'a ndarray = NdArray (shape: "nat list") (data: "'a list")

definition amap :: "('a \<Rightarrow> 'b) \<Rightarrow> 'a ndarray \<Rightarrow> 'b ndarray" where
  "amap f a = NdArray (shape a) (map f (data a))"

text \<open>\<open>a.reshape((-1,) + s)\<close>: the leading dimension is inferred from the size.\<close>

definition reshape_m1 :: "nat list \<Rightarrow> 'a ndarray \<Rightarrow> error + 'a ndarray" where
  "reshape_m1 s a =
     (let p = prod_list s; n = length (data a)
      in if p = 0 \<or> n mod p \<noteq> 0
         then Inl (ValueError ''cannot reshape array'')
         else Inr (NdArray ((n div p) # s) (data a)))"

text \<open>Iterating over an array yields its sub-arrays along the first axis.\<close>

definition iter_rows :: "'a ndarray \<Rightarrow> 'a ndarray list" where
  "iter_rows a =
     (case shape a of
        [] \<Rightarrow> []
      | n # rest \<Rightarrow>
          map (\<lambda>i. NdArray rest
                 (take (prod_list rest) (drop (i * prod_list rest) (data a))))
              [0..<n])"

text \<open>
  \<open>*a.reshape(-1, 1)\<close>: the array becomes a column, and unpacking the column yields one
  array of shape \<open>(1,)\<close> per element.
\<close>

definition column_items :: "'a ndarray \<Rightarrow> 'a ndarray list" where
  "column_items a = map (\<lambda>v. NdArray [1] [v]) (data a)"

definition np_atleast_1d :: "'a ndarray \<Rightarrow> 'a ndarray" where
  "np_atleast_1d a = (if shape a = [] then NdArray [1] (data a) else a)"


text \<open>The mean of boolean values, as a float: NaN for no values at all.\<close>

definition mean_of :: "bool list \<Rightarrow> npfloat" where
  "mean_of bs =
     (if bs = [] then NaN
      else Fin (real (length (filter id bs)) / real (length bs)))"

text \<open>
  \<open>a.mean(axes)\<close> for \<open>axes = (1, ..., d)\<close> on a boolean array of shape \<open>(n,) + s\<close>: the
  first \<open>d\<close> dimensions of \<open>s\<close> are averaged out. An axis beyond the array's dimensions
  is an error.
\<close>

definition mean_axes :: "nat \<Rightarrow> bool ndarray \<Rightarrow> error + npfloat ndarray" where
  "mean_axes d a =
     (case shape a of
        [] \<Rightarrow>
          (if d = 0 then Inr (NdArray [] (map (\<lambda>b. mean_of [b]) (data a)))
           else Inl (ValueError ''axis is out of bounds''))
      | n # s \<Rightarrow>
          (if length s < d then Inl (ValueError ''axis is out of bounds'')
           else
             (let q = prod_list (take d s); r = prod_list (drop d s)
              in Inr (NdArray (n # drop d s)
                   (concat (map (\<lambda>i.
                      map (\<lambda>j. mean_of (map (\<lambda>b. data a ! (i * (q * r) + b * r + j)) [0..<q]))
                          [0..<r])
                    [0..<n]))))))"


section \<open>\<open>edge/model/safety_models/safety_measure.py\<close>: \<open>SafetyMeasure\<close>\<close>

subsection \<open>Arguments, results and collaborators\<close>

text \<open>
  A threshold argument is a single value or a Python list (or tuple) of values; the
  \<open>state\<close> argument of \<open>level_set\<close> is \<open>None\<close>, a slice or an array.
\<close>

datatype threshold = Scalar npfloat | ThrList "npfloat list"

datatype pyslice = Slice "int option" "int option" "int option"

datatype state_arg = StNone | StSlice pyslice | StArray "npfloat ndarray"

text \<open>The index handed to the regressor's \<open>query\<close>.\<close>

datatype index_item = ItArr "npfloat ndarray" | ItSlice pyslice

datatype index =
    IdxTuple "index_item list"
  | IdxList "index_item list list"
  | IdxPair "npfloat ndarray" "npfloat ndarray"

text \<open>The override argument \<open>measure\<close> of \<open>update\<close>: a Python number or an array.\<close>

datatype pynum = PyScalar npfloat | PyArr "npfloat ndarray"

text \<open>What \<open>level_set\<close> returns: an array, a list of arrays, or a tuple of those.\<close>

datatype pyval =
    BoolArr "bool ndarray"
  | FloatArr "npfloat ndarray"
  | PyList "pyval list"
  | PyTuple "pyval list"
  | PyNone

text \<open>One call of the regressor's \<open>append_data\<close>: the training row and its retention flags.\<close>

record row =
  r_input :: "npfloat ndarray"
  r_target :: "npfloat ndarray"
  r_forgettable :: "bool list"
  r_make_forget :: "bool list"
  r_unskippable :: "bool list"

text \<open>
  What \<open>query\<close> answers: one (mean, covariance) pair per queried point and, when asked
  for, the entries of the covariance matrix.
\<close>

record query_out =
  q_points :: "(npfloat \<times> npfloat) list"
  q_covar_matrix :: "npfloat list"

text \<open>
  The collaborators of the measure, none of them code of this file: the regressor of
  type \<open>'gp\<close> with its \<open>query\<close> (called with \<open>return_covar=True\<close>; the boolean is
  \<open>return_covar_matrix\<close>) and \<open>append_data\<close>, the environment's spaces, the normal
  distribution function and the text of the library's floating-point warnings. Calls of
  the collaborators are assumed to return.
\<close>

record 'gp ext =
  query :: "'gp \<Rightarrow> index \<Rightarrow> bool \<Rightarrow> query_out"
  append_data :: "'gp \<Rightarrow> row \<Rightarrow> 'gp"
  stateaction :: "npfloat ndarray \<Rightarrow> npfloat ndarray \<Rightarrow> npfloat ndarray"
  action_shape :: "nat list"
  action_index_dim :: nat
  norm_cdf :: "real \<Rightarrow> real"
  warning_text :: "np_warning \<Rightarrow> string"

text \<open>
  The measure object (\<open>gamma_measure\<close>, \<open>gp\<close>) together with what its calls do to the
  outside: the queries put to the regressor, the rows appended to it, and the warnings
  issued with \<open>warnings.warn\<close>, each in order.
\<close>

record 'gp safety_measure =
  gamma_measure :: npfloat
  gp :: 'gp
  query_log :: "(index \<times> bool) list"
  appended :: "row list"
  warned :: "string list"

subsection \<open>\<open>level_set\<close>\<close>

definition as_list :: "threshold \<Rightarrow> npfloat list" where
  "as_list t = (case t of Scalar v \<Rightarrow> [v] | ThrList vs \<Rightarrow> vs)"

definition full_slice :: index_item where
  "full_slice = ItSlice (Slice None None None)"

definition is_state_list :: "npfloat ndarray \<Rightarrow> bool" where
  "is_state_list a = (case shape a of n # m # rest \<Rightarrow> 1 < n | _ \<Rightarrow> False)"

definition make_index :: "state_arg \<Rightarrow> index" where
  "make_index state =
     (case state of
        StNone \<Rightarrow> IdxTuple [full_slice, full_slice]
      | StSlice sl \<Rightarrow> IdxTuple [ItSlice sl, full_slice]
      | StArray a \<Rightarrow>
          (if is_state_list a
           then IdxList (map (\<lambda>s. map ItArr (column_items s) @ [full_slice]) (iter_rows a))
           else IdxTuple (map ItArr (column_items a) @ [full_slice])))"

text \<open>
  \<open>norm.cdf((measure_slice - lambda_threshold) / np.sqrt(covar_slice))\<close> for one
  threshold: the values, and the warnings of the three array operations in the order
  in which they run (subtraction, square root, division).
\<close>

definition cdf_values ::
  "(real \<Rightarrow> real) \<Rightarrow> npfloat ndarray \<Rightarrow> npfloat ndarray \<Rightarrow> npfloat \<Rightarrow> npfloat ndarray" where
  "cdf_values cdf measure_slice covar_slice lambda_threshold =
     NdArray (shape measure_slice)
       (map (\<lambda>(m, c). np_cdf cdf (np_div (np_sub m lambda_threshold) (np_sqrt c)))
            (zip (data measure_slice) (data covar_slice)))"

definition cdf_warnings ::
  "npfloat ndarray \<Rightarrow> npfloat ndarray \<Rightarrow> npfloat \<Rightarrow> np_warning list" where
  "cdf_warnings measure_slice covar_slice lambda_threshold =
     (let num = map (\<lambda>m. np_sub m lambda_threshold) (data measure_slice);
          den = map np_sqrt (data covar_slice)
      in (if list_ex (\<lambda>m. sub_overflow m lambda_threshold) (data measure_slice)
          then [OverflowSubtract] else []) @
         (if list_ex (\<lambda>m. sub_invalid m lambda_threshold) (data measure_slice)
          then [InvalidSubtract] else []) @
         (if list_ex sqrt_invalid (data covar_slice) then [InvalidSqrt] else []) @
         (if list_ex (\<lambda>(a, b). div_by_zero a b) (zip num den) then [DivideByZero] else []) @
         (if list_ex (\<lambda>(a, b). div_overflow a b) (zip num den) then [OverflowDivide] else []) @
         (if list_ex (\<lambda>(a, b). div_invalid a b) (zip num den) then [InvalidDivide] else []))"

text \<open>
  The list \<open>w\<close> that \<open>warnings.catch_warnings(record=True)\<close> holds once \<open>compute_cdf\<close>
  has built its list: the messages of the warnings raised for the thresholds in turn.
  All of them come from one source line, and under Python's default filter a message
  is recorded the first time it is raised from a line and not again.
\<close>

fun first_occurrences :: "'a list \<Rightarrow> 'a list \<Rightarrow> 'a list" where
  "first_occurrences seen [] = []"
| "first_occurrences seen (x # xs) =
     (if x \<in> set seen then first_occurrences seen xs
      else x # first_occurrences (x # seen) xs)"

definition recorded ::
  "(np_warning \<Rightarrow> string) \<Rightarrow> npfloat ndarray \<Rightarrow> npfloat ndarray \<Rightarrow> npfloat list \<Rightarrow> string list" where
  "recorded text measure_slice covar_slice lambda_threshold_list =
     first_occurrences [] (map text
       (concat (map (cdf_warnings measure_slice covar_slice) lambda_threshold_list)))"

text \<open>
  The messages joined, each followed by a newline, and then \<open>original_warning[:-2]\<close>:
  the last two characters are dropped.
\<close>

definition original_warning :: "string list \<Rightarrow> string" where
  "original_warning w =
     (let joined = concat (map (\<lambda>m. m @ [CHR 0x0A]) w)
      in take (length joined - 2) joined)"

definition warning_message :: "string list \<Rightarrow> string" where
  "warning_message w =
     ''Warning encountered in cumulative density function computation. '' @ [CHR 0x0A] @
     ''This may be caused by an ill-conditioned kernel matrix causing a negative covariance.'' @
     [CHR 0x0A] @ ''Original warning: '' @ original_warning w"

definition arr_gt :: "npfloat ndarray \<Rightarrow> npfloat \<Rightarrow> bool ndarray" where
  "arr_gt level_value gamma_threshold = amap (\<lambda>v. np_gt v gamma_threshold) level_value"

text \<open>
  The end of \<open>level_set\<close>: a list of exactly one level set is replaced by its element,
  and the list of probabilities by its first element with it; then the optional
  components are added in their fixed order.
\<close>

definition unwrap_single ::
  "bool ndarray list \<Rightarrow> npfloat ndarray list \<Rightarrow> error + (pyval \<times> pyval)" where
  "unwrap_single level_set_list level_value_list =
     (case level_set_list of
        [s] \<Rightarrow>
          (case level_value_list of
             [] \<Rightarrow> Inl (IndexError ''list index out of range'')
           | v # vs \<Rightarrow> Inr (BoolArr s, FloatArr v))
      | other \<Rightarrow>
          Inr (PyList (map BoolArr level_set_list), PyList (map FloatArr level_value_list)))"

definition return_var ::
  "pyval \<Rightarrow> pyval \<Rightarrow> npfloat ndarray \<Rightarrow> npfloat ndarray \<Rightarrow> npfloat ndarray option \<Rightarrow>
   bool \<Rightarrow> bool \<Rightarrow> bool \<Rightarrow> bool \<Rightarrow> pyval" where
  "return_var level_set_list level_value_list covar_slice measure_slice covar_matrix
     return_proba return_covar return_measure return_covar_matrix =
     (if return_proba \<or> return_covar \<or> return_measure \<or> return_covar_matrix
      then PyTuple
        ([level_set_list] @
         (if return_proba then [level_value_list] else []) @
         (if return_covar then [FloatArr covar_slice] else []) @
         (if return_measure then [FloatArr measure_slice] else []) @
         (if return_covar_matrix
          then [case covar_matrix of None \<Rightarrow> PyNone | Some c \<Rightarrow> FloatArr c] else []))
      else level_set_list)"

text \<open>
  The query and the three reshapes: \<open>measure_slice\<close>, \<open>covar_slice\<close> and, when it was
  asked for, \<open>covar_matrix\<close> (which is \<open>None\<close> otherwise).
\<close>

definition query_slices ::
  "'gp ext \<Rightarrow> 'gp \<Rightarrow> index \<Rightarrow> bool \<Rightarrow>
   error + (npfloat ndarray \<times> npfloat ndarray \<times> npfloat ndarray option)" where
  "query_slices E g index return_covar_matrix =
     (let output_shape = action_shape E;
          query_out = query E g index return_covar_matrix;
          n = length (q_points query_out)
      in case reshape_m1 output_shape (NdArray [n] (map fst (q_points query_out))) of
           Inl e \<Rightarrow> Inl e
         | Inr measure_slice \<Rightarrow>
        (case reshape_m1 output_shape (NdArray [n] (map snd (q_points query_out))) of
           Inl e \<Rightarrow> Inl e
         | Inr covar_slice \<Rightarrow>
        (if return_covar_matrix
         then (case reshape_m1 output_shape
                      (NdArray [length (q_covar_matrix query_out)]
                         (q_covar_matrix query_out)) of
                 Inl e \<Rightarrow> Inl e
               | Inr covar_matrix \<Rightarrow> Inr (measure_slice, covar_slice, Some covar_matrix))
         else Inr (measure_slice, covar_slice, None))))"

text \<open>
  The probabilities: the list \<open>compute_cdf\<close> built unless a warning was recorded, the
  list recomputed on \<open>abs(covar_slice)\<close> if one was. In that case, and only then, the
  call issues its one warning.
\<close>

definition level_values ::
  "'gp ext \<Rightarrow> npfloat ndarray \<Rightarrow> npfloat ndarray \<Rightarrow> npfloat list \<Rightarrow> npfloat ndarray list" where
  "level_values E measure_slice covar_slice lambda_threshold_list =
     (if recorded (warning_text E) measure_slice covar_slice lambda_threshold_list \<noteq> []
      then map (cdf_values (norm_cdf E) measure_slice (amap np_abs covar_slice))
             lambda_threshold_list
      else map (cdf_values (norm_cdf E) measure_slice covar_slice) lambda_threshold_list)"

definition issue_warning ::
  "'gp ext \<Rightarrow> npfloat ndarray \<Rightarrow> npfloat ndarray \<Rightarrow> npfloat list \<Rightarrow> string list" where
  "issue_warning E measure_slice covar_slice lambda_threshold_list =
     (let w = recorded (warning_text E) measure_slice covar_slice lambda_threshold_list
      in if w \<noteq> [] then [warning_message w] else [])"

definition level_set ::
  "'gp ext \<Rightarrow> 'gp safety_measure \<Rightarrow> state_arg \<Rightarrow> threshold \<Rightarrow> threshold \<Rightarrow>
   bool \<Rightarrow> bool \<Rightarrow> bool \<Rightarrow> bool \<Rightarrow> (error + pyval) \<times> 'gp safety_measure" where
  "level_set E M state lambda_threshold gamma_threshold
     return_proba return_covar return_measure return_covar_matrix =
     (let lambda_threshold_list = as_list lambda_threshold;
          gamma_threshold_list = as_list gamma_threshold;
          index = make_index state;
          M1 = M\<lparr>query_log := query_log M @ [(index, return_covar_matrix)]\<rparr>
      in case query_slices E (gp M) index return_covar_matrix of
           Inl e \<Rightarrow> (Inl e, M1)
         | Inr (measure_slice, covar_slice, covar_matrix) \<Rightarrow>
          (let level_value_list =
                 level_values E measure_slice covar_slice lambda_threshold_list;
               M2 = M1\<lparr>warned := warned M1 @
                      issue_warning E measure_slice covar_slice lambda_threshold_list\<rparr>;
               level_set_list =
                 map (\<lambda>(level_value, gamma_threshold). arr_gt level_value gamma_threshold)
                     (zip level_value_list gamma_threshold_list)
           in case unwrap_single level_set_list level_value_list of
                Inl e \<Rightarrow> (Inl e, M2)
              | Inr (level_sets, level_probas) \<Rightarrow>
                  (Inr (return_var level_sets level_probas covar_slice measure_slice
                          covar_matrix
                          return_proba return_covar return_measure return_covar_matrix),
                   M2)))"

subsection \<open>\<open>measure\<close>, \<open>is_in_level_set\<close> and \<open>update\<close>\<close>

definition measure ::
  "'gp ext \<Rightarrow> 'gp safety_measure \<Rightarrow> state_arg \<Rightarrow> threshold \<Rightarrow> threshold option \<Rightarrow>
   (error + npfloat ndarray) \<times> 'gp safety_measure" where
  "measure E M state lambda_threshold gamma_threshold =
     (let gamma_threshold' =
            (case gamma_threshold of None \<Rightarrow> Scalar (gamma_measure M) | Some g \<Rightarrow> g);
          (res, M1) = level_set E M state lambda_threshold gamma_threshold'
                        False False False False
      in case res of
           Inl e \<Rightarrow> (Inl e, M1)
         | Inr (BoolArr level_set_arr) \<Rightarrow>
             (case reshape_m1 (action_shape E) level_set_arr of
                Inl e \<Rightarrow> (Inl e, M1)
              | Inr reshaped \<Rightarrow>
                  (case mean_axes (action_index_dim E) reshaped of
                     Inl e \<Rightarrow> (Inl e, M1)
                   | Inr m \<Rightarrow> (Inr (np_atleast_1d m), M1)))
         | Inr other \<Rightarrow>
             (Inl (AttributeError ''object has no attribute 'reshape' ''), M1))"


definition atleast_1d_num :: "pynum \<Rightarrow> npfloat ndarray" where
  "atleast_1d_num v = (case v of PyScalar x \<Rightarrow> NdArray [1] [x] | PyArr a \<Rightarrow> np_atleast_1d a)"

definition update ::
  "'gp ext \<Rightarrow> 'gp safety_measure \<Rightarrow> npfloat ndarray \<Rightarrow> npfloat ndarray \<Rightarrow> state_arg \<Rightarrow>
   'r \<Rightarrow> bool \<Rightarrow> 'd \<Rightarrow> pynum option \<Rightarrow> (error + npfloat ndarray) \<times> 'gp safety_measure" where
  "update E M state action new_state reward failed done measure_arg =
     (let (res, M1) =
            (if \<not> failed \<and> measure_arg = None
             then measure E M new_state (Scalar (Fin 0)) (Some (Scalar (gamma_measure M)))
             else if \<not> failed \<and> measure_arg \<noteq> None
             then (Inr (atleast_1d_num (the measure_arg)), M)
             else (Inr (NdArray [1] [Fin 0]), M))
      in case res of
           Inl e \<Rightarrow> (Inl e, M1)
         | Inr update_value \<Rightarrow>
             (let stateaction = stateaction E state action;
                  new_row = \<lparr>r_input = stateaction, r_target = update_value,
                             r_forgettable = [\<not> failed], r_make_forget = [\<not> failed],
                             r_unskippable = [failed]\<rparr>
              in (Inr update_value,
                  M1\<lparr>gp := append_data E (gp M1) new_row,
                     appended := appended M1 @ [new_row]\<rparr>)))"


section \<open>\<open>MaternSafety.load\<close>\<close>

text \<open>
  A Python object as \<open>json.loads\<close> builds it; \<open>JNull\<close> is \<open>None\<close>. An object's items
  are listed with distinct keys.
\<close>

datatype json =
    JNull
  | JBool bool
  | JNumber npfloat
  | JString string
  | JArray "json list"
  | JObject "(string \<times> json) list"

text \<open>
  What \<open>load\<close> uses and this file does not define: the regressor class (its \<open>load\<close>, its
  constructor, its training data), the two file names of \<open>GPModel\<close>, the joining of
  paths, and the JSON parser. Loading and constructing a regressor can raise.
\<close>

record ('gp, 'seed) loader =
  gp_load :: "string \<Rightarrow> 'seed option \<Rightarrow> 'seed option \<Rightarrow> bool \<Rightarrow> error + 'gp"
  gp_new :: "'seed option \<Rightarrow> 'seed option \<Rightarrow> error + 'gp"
  train_x :: "'gp \<Rightarrow> 'seed"
  train_y :: "'gp \<Rightarrow> 'seed"
  GP_SAVE_NAME :: string
  SAVE_NAME :: string
  path_join :: "string \<Rightarrow> string \<Rightarrow> string"
  json_loads :: "string \<Rightarrow> error + json"

record ('gp, 'env) matern_safety =
  ms_env :: 'env
  ms_gp :: 'gp
  ms_gamma_measure :: json

text \<open>\<open>state_dict['gamma_measure']\<close>: a missing key and a non-dictionary both raise.\<close>

definition getitem_str :: "json \<Rightarrow> string \<Rightarrow> error + json" where
  "getitem_str obj key =
     (case obj of
        JObject items \<Rightarrow>
          (case map_of items key of None \<Rightarrow> Inl (KeyError key) | Some v \<Rightarrow> Inr v)
      | other \<Rightarrow> Inl (TypeError ''object is not subscriptable by a string''))"

definition could_not_find :: "string \<Rightarrow> string" where
  "could_not_find model_save_path =
     ''Could not find file '' @ model_save_path @
     ''. Specify gamma_measure instead to load this model''"

text \<open>
  The file system is a map from paths to the text of the files that exist; opening a
  path outside its domain is \<open>FileNotFoundError\<close>, the one exception \<open>load\<close> catches.
\<close>

definition read_gamma_measure ::
  "('gp, 'seed) loader \<Rightarrow> (string \<rightharpoonup> string) \<Rightarrow> string \<Rightarrow> error + json" where
  "read_gamma_measure L fs load_folder =
     (let model_save_path = path_join L load_folder (SAVE_NAME L)
      in case fs model_save_path of
           None \<Rightarrow> Inl (ValueError (could_not_find model_save_path))
         | Some json_str \<Rightarrow>
             (case json_loads L json_str of
                Inl e \<Rightarrow> Inl e
              | Inr state_dict \<Rightarrow> getitem_str state_dict ''gamma_measure''))"

definition load ::
  "('gp, 'seed) loader \<Rightarrow> (string \<rightharpoonup> string) \<Rightarrow> string \<Rightarrow> 'env \<Rightarrow> json \<Rightarrow>
   'seed option \<Rightarrow> 'seed option \<Rightarrow> error + ('gp, 'env) matern_safety" where
  "load L fs load_folder env gamma_measure_arg x_seed y_seed =
     (let gp_load_path = path_join L load_folder (GP_SAVE_NAME L);
          load_data = (x_seed = None)
      in case gp_load L gp_load_path x_seed y_seed load_data of
           Inl e \<Rightarrow> Inl e
         | Inr loaded \<Rightarrow>
             (let x_seed' = (if load_data then Some (train_x L loaded) else x_seed);
                  y_seed' = (if load_data then Some (train_y L loaded) else y_seed)
              in case (if gamma_measure_arg = JNull
                       then read_gamma_measure L fs load_folder
                       else Inr gamma_measure_arg) of
                   Inl e \<Rightarrow> Inl e
                 | Inr gamma \<Rightarrow>
                     (case gp_new L x_seed' y_seed' of
                        Inl e \<Rightarrow> Inl e
                      | Inr fresh \<Rightarrow>
                          Inr \<lparr>ms_env = env, ms_gp = loaded, ms_gamma_measure = gamma\<rparr>)))"


section \<open>A concrete regressor and environment\<close>

text \<open>
  The examples below run the model on a small instance: a regressor that is the list of
  the rows appended so far and answers every query with the same points, the texts of
  the library's warnings, and the distribution function of the uniform distribution on
  \<open>[-1, 1]\<close> in the place of \<open>norm.cdf\<close>.
\<close>

definition numpy_text :: "np_warning \<Rightarrow> string" where
  "numpy_text w =
     (case w of
        OverflowSubtract \<Rightarrow> ''overflow encountered in subtract''
      | InvalidSubtract \<Rightarrow> ''invalid value encountered in subtract''
      | InvalidSqrt \<Rightarrow> ''invalid value encountered in sqrt''
      | DivideByZero \<Rightarrow> ''divide by zero encountered in divide''
      | OverflowDivide \<Rightarrow> ''overflow encountered in divide''
      | InvalidDivide \<Rightarrow> ''invalid value encountered in divide'')"

definition ramp_cdf :: "real \<Rightarrow> real" where
  "ramp_cdf x = (if x \<le> - 1 then 0 else if 1 \<le> x then 1 else (x + 1) / 2)"

definition ex_ext :: "(npfloat \<times> npfloat) list \<Rightarrow> nat list \<Rightarrow> (row list) ext" where
  "ex_ext pts sh =
     \<lparr>query = (\<lambda>g i cm. \<lparr>q_points = pts, q_covar_matrix = (if cm then map snd pts else [])\<rparr>),
      append_data = (\<lambda>g r. g @ [r]),
      stateaction = (\<lambda>s a. NdArray [length (data s) + length (data a)] (data s @ data a)),
      action_shape = sh,
      action_index_dim = length sh,
      norm_cdf = ramp_cdf,
      warning_text = numpy_text\<rparr>"

definition ex_measure :: "(row list) safety_measure" where
  "ex_measure =
     \<lparr>gamma_measure = Fin (1 / 2), gp = [], query_log = [], appended = [], warned = []\<rparr>"







text \<open>
  A loader for the examples: its regressors are the path they were loaded from (or
  \<open>fresh\<close> for a constructed one), and its parser knows the one state dictionary
  \<open>{"gamma_measure": 0.5}\<close>.
\<close>

definition ex_state_dict_text :: string where
  "ex_state_dict_text =
     ''{'' @ [CHR 0x22] @ ''gamma_measure'' @ [CHR 0x22] @ '': 0.5}''"

definition ex_loader :: "(string, nat) loader" where
  "ex_loader =
     \<lparr>gp_load = (\<lambda>path x_seed y_seed load_data. Inr path),
      gp_new = (\<lambda>x_seed y_seed. Inr ''fresh''),
      train_x = (\<lambda>g. 0),
      train_y = (\<lambda>g. 0),
      GP_SAVE_NAME = ''gp_save'',
      SAVE_NAME = ''model_save.json'',
      path_join = (\<lambda>folder name. folder @ ''/'' @ name),
      json_loads = (\<lambda>text. if text = ex_state_dict_text
                           then Inr (JObject [(''gamma_measure'', JNumber (Fin (1 / 2)))])
                           else Inl JSONDecodeError)\<rparr>"


text \<open>The same loader in a folder that holds no saved regressor.\<close>

definition ex_loader_no_gp :: "(string, nat) loader" where
  "ex_loader_no_gp =
     ex_loader\<lparr>gp_load := (\<lambda>path x_seed y_seed load_data. Inl (FileNotFoundError path))\<rparr>"


section \<open>Reading a result of \<open>level_set\<close>\<close>

text \<open>
  The components of a result (the elements of the tuple, or the one bare value), its
  level-set component, and the arrays a component consists of.
\<close>

fun components :: "pyval \<Rightarrow> pyval list" where
  "components (PyTuple xs) = xs"
| "components v = [v]"



fun is_array :: "pyval \<Rightarrow> bool" where
  "is_array (BoolArr a) = True"
| "is_array (FloatArr a) = True"
| "is_array v = False"

fun is_array_list :: "nat \<Rightarrow> pyval \<Rightarrow> bool" where
  "is_array_list k (PyList xs) = (length xs = k \<and> list_all is_array xs)"
| "is_array_list k v = False"


section \<open>Evaluating the model\<close>

text \<open>Numbers of ordinary size do not overflow.\<close>

lemma overflows_small:
  assumes "\<bar>r\<bar> \<le> 1000"
  shows "\<not> overflows r"
proof -
  have "(2::real) ^ 970 * 2 \<le> 2 ^ 970 * 2 ^ 54" by (intro mult_left_mono) simp_all
  then have "(2::real) ^ 970 + 2 ^ 970 \<le> 2 ^ 1024" by (simp add: power_add [symmetric])
  moreover have "(1000::real) < 2 ^ 970"
  proof -
    have "(1000::real) < 2 ^ 10" by simp
    also have "(2::real) ^ 10 \<le> 2 ^ 970" by (rule power_increasing) simp_all
    finally show ?thesis .
  qed
  ultimately show ?thesis using assms by (simp add: overflows_def overflow_threshold_def)
qed

lemmas float_eval = np_sub_def np_div_def np_gt_def float_result_def signed_inf_def
  signed_zero_def sub_invalid_def sub_overflow_def div_by_zero_def div_overflow_def
  div_invalid_def overflows_small

lemmas ex_eval = level_set_def Let_def ex_ext_def ex_measure_def as_list_def make_index_def
  query_slices_def reshape_m1_def level_values_def issue_warning_def recorded_def
  cdf_warnings_def cdf_values_def amap_def arr_gt_def unwrap_single_def return_var_def
  ramp_cdf_def numpy_text_def warning_message_def original_warning_def full_slice_def
  float_eval


section \<open>Properties of \<open>level_set\<close>\<close>

subsection \<open>The two outcomes of a call\<close>

lemma level_set_raises:
  assumes "query_slices E (gp M) (make_index st) rcm = Inl e"
  shows "level_set E M st lam gam rp rc rm rcm =
           (Inl e, M\<lparr>query_log := query_log M @ [(make_index st, rcm)]\<rparr>)"
  using assms by (simp add: level_set_def Let_def)

lemma unwrap_single_returns:
  assumes "length LS \<le> length LV"
  shows "unwrap_single LS LV =
     Inr (if length LS = 1 then BoolArr (LS ! 0) else PyList (map BoolArr LS),
          if length LS = 1 then FloatArr (LV ! 0) else PyList (map FloatArr LV))"
proof (cases "length LS = 1")
  case True
  then obtain s where LS: "LS = [s]" by (cases LS) auto
  with assms obtain v vs where LV: "LV = v # vs" by (cases LV) auto
  show ?thesis by (simp add: unwrap_single_def LS LV)
next
  case False
  then show ?thesis by (auto simp: unwrap_single_def split: list.splits)
qed

lemma level_set_returns:
  assumes "query_slices E (gp M) (make_index st) rcm = Inr (ms, cs, cm)"
  shows "level_set E M st lam gam rp rc rm rcm =
           (Inr (return_var
                  (if length (map2 arr_gt (level_values E ms cs (as_list lam)) (as_list gam)) = 1
                   then BoolArr
                     (map2 arr_gt (level_values E ms cs (as_list lam)) (as_list gam) ! 0)
                   else PyList (map BoolArr
                     (map2 arr_gt (level_values E ms cs (as_list lam)) (as_list gam))))
                  (if length (map2 arr_gt (level_values E ms cs (as_list lam)) (as_list gam)) = 1
                   then FloatArr (level_values E ms cs (as_list lam) ! 0)
                   else PyList (map FloatArr (level_values E ms cs (as_list lam))))
                  cs ms cm rp rc rm rcm),
            M\<lparr>query_log := query_log M @ [(make_index st, rcm)],
              warned := warned M @ issue_warning E ms cs (as_list lam)\<rparr>)"
proof -
  have "length (map2 arr_gt (level_values E ms cs (as_list lam)) (as_list gam))
          \<le> length (level_values E ms cs (as_list lam))"
    by simp
  from unwrap_single_returns [OF this] assms show ?thesis
    by (simp add: level_set_def Let_def)
qed

lemma level_set_cases:
  obtains (raises) e where "query_slices E (gp M) (make_index st) rcm = Inl e"
  | (returns) ms cs cm where "query_slices E (gp M) (make_index st) rcm = Inr (ms, cs, cm)"
  by (cases "query_slices E (gp M) (make_index st) rcm") auto

text \<open>What the query and the reshapes return, written out.\<close>

lemma query_slices_returns:
  assumes "query_slices E g i rcm = Inr (ms, cs, cm)"
  shows "ms = NdArray ((length (q_points (query E g i rcm)) div prod_list (action_shape E))
                        # action_shape E) (map fst (q_points (query E g i rcm)))"
    and "cs = NdArray ((length (q_points (query E g i rcm)) div prod_list (action_shape E))
                        # action_shape E) (map snd (q_points (query E g i rcm)))"
    and "cm = (if rcm
               then Some (NdArray
                      ((length (q_covar_matrix (query E g i rcm)) div prod_list (action_shape E))
                        # action_shape E) (q_covar_matrix (query E g i rcm)))
               else None)"
  using assms
  by (auto simp: query_slices_def reshape_m1_def Let_def split: sum.splits if_splits)

lemma arr_gt_explicit:
  "arr_gt v g = NdArray (shape v) (map (\<lambda>x. np_gt x g) (data v))"
  by (simp add: arr_gt_def amap_def)

subsection \<open>The shape of the value returned\<close>

text \<open>
  Claim C5. Let a call of \<open>level_set\<close> return \<open>r\<close>. Write \<open>MS\<close>, \<open>CS\<close> and \<open>CM\<close> for the
  means, the covariances and the covariance matrix of the regressor's answer, each
  reshaped to \<open>(-1,) + action_shape\<close>; \<open>LV\<close> for the probabilities and \<open>LS\<close> for the level
  sets computed from them, one per threshold pair; \<open>S\<close> for the level set (the only
  element of \<open>LS\<close>, or the list \<open>LS\<close>) and \<open>P\<close> for the probability (the first element
  of \<open>LV\<close>, or the list \<open>LV\<close>). If none of the four flags is set, \<open>r\<close> is the bare level
  set \<open>S\<close>. Otherwise \<open>r\<close> is a tuple: first \<open>S\<close>, then \<open>P\<close> if \<open>return_proba\<close>, then \<open>CS\<close>
  if \<open>return_covar\<close>, then \<open>MS\<close> if \<open>return_measure\<close>, then \<open>CM\<close> if
  \<open>return_covar_matrix\<close>: each present exactly when its flag is set, in that order.
\<close>

theorem level_set_return_shape:
  assumes "fst (level_set E M st lam gam rp rc rm rcm) = Inr r"
  shows "let out = query E (gp M) (make_index st) rcm;
             block = prod_list (action_shape E);
             MS = NdArray ((length (q_points out) div block) # action_shape E)
                    (map fst (q_points out));
             CS = NdArray ((length (q_points out) div block) # action_shape E)
                    (map snd (q_points out));
             CM = NdArray ((length (q_covar_matrix out) div block) # action_shape E)
                    (q_covar_matrix out);
             LV = level_values E MS CS (as_list lam);
             LS = map2 (\<lambda>v g. NdArray (shape v) (map (\<lambda>x. np_gt x g) (data v)))
                    LV (as_list gam);
             S = (if length LS = 1 then BoolArr (LS ! 0) else PyList (map BoolArr LS));
             P = (if length LS = 1 then FloatArr (LV ! 0) else PyList (map FloatArr LV))
         in r = (if rp \<or> rc \<or> rm \<or> rcm
                 then PyTuple ([S] @ (if rp then [P] else []) @
                               (if rc then [FloatArr CS] else []) @
                               (if rm then [FloatArr MS] else []) @
                               (if rcm then [FloatArr CM] else []))
                 else S)"
proof (cases rule: level_set_cases [of E M st rcm])
  case (raises e)
  then show ?thesis using assms by (simp add: level_set_raises)
next
  case (returns ms cs cm)
  note q = query_slices_returns [OF returns]
  have gt: "arr_gt = (\<lambda>v g. NdArray (shape v) (map (\<lambda>x. np_gt x g) (data v)))"
    by (intro ext) (rule arr_gt_explicit)
  let ?LV = "level_values E ms cs (as_list lam)"
  let ?LS = "map2 arr_gt ?LV (as_list gam)"
  have r': "r = (if rp \<or> rc \<or> rm \<or> rcm
                 then PyTuple
                   ([if length ?LS = 1 then BoolArr (?LS ! 0) else PyList (map BoolArr ?LS)] @
                    (if rp then [if length ?LS = 1 then FloatArr (?LV ! 0)
                                 else PyList (map FloatArr ?LV)] else []) @
                    (if rc then [FloatArr cs] else []) @
                    (if rm then [FloatArr ms] else []) @
                    (if rcm then [case cm of None \<Rightarrow> PyNone | Some c \<Rightarrow> FloatArr c]
                     else []))
                 else (if length ?LS = 1 then BoolArr (?LS ! 0)
                       else PyList (map BoolArr ?LS)))"
    using assms unfolding level_set_returns [OF returns] return_var_def by simp
  show ?thesis
  proof (cases rcm)
    case True
    with q(3) have cm: "cm = Some (NdArray
        ((length (q_covar_matrix (query E (gp M) (make_index st) rcm))
            div prod_list (action_shape E)) # action_shape E)
        (q_covar_matrix (query E (gp M) (make_index st) rcm)))"
      by simp
    show ?thesis
      unfolding Let_def gt [symmetric] q(1) [symmetric] q(2) [symmetric]
      using r' True by (simp add: cm)
  next
    case False
    show ?thesis
      unfolding Let_def gt [symmetric] q(1) [symmetric] q(2) [symmetric]
      using r' False by simp
  qed
qed


theorem level_set_return_shape_witness:
  "fst (level_set (ex_ext [(Fin 1, Fin 1), (Fin 0, Fin 4)] [2]) ex_measure StNone
         (Scalar (Fin 0)) (Scalar (Fin (1 / 2))) True False True True) =
     Inr (PyTuple [BoolArr (NdArray [1, 2] [True, False]),
                   FloatArr (NdArray [1, 2] [Fin 1, Fin (1 / 2)]),
                   FloatArr (NdArray [1, 2] [Fin 1, Fin 0]),
                   FloatArr (NdArray [1, 2] [Fin 1, Fin 4])]) \<and>
   (let out = query (ex_ext [(Fin 1, Fin 1), (Fin 0, Fin 4)] [2]) (gp ex_measure)
                (make_index StNone) True;
        block = prod_list (action_shape (ex_ext [(Fin 1, Fin 1), (Fin 0, Fin 4)] [2]));
        MS = NdArray ((length (q_points out) div block)
                       # action_shape (ex_ext [(Fin 1, Fin 1), (Fin 0, Fin 4)] [2]))
               (map fst (q_points out));
        CS = NdArray ((length (q_points out) div block)
                       # action_shape (ex_ext [(Fin 1, Fin 1), (Fin 0, Fin 4)] [2]))
               (map snd (q_points out));
        CM = NdArray ((length (q_covar_matrix out) div block)
                       # action_shape (ex_ext [(Fin 1, Fin 1), (Fin 0, Fin 4)] [2]))
               (q_covar_matrix out);
        LV = level_values (ex_ext [(Fin 1, Fin 1), (Fin 0, Fin 4)] [2]) MS CS
               (as_list (Scalar (Fin 0)));
        LS = map2 (\<lambda>v g. NdArray (shape v) (map (\<lambda>x. np_gt x g) (data v)))
               LV (as_list (Scalar (Fin (1 / 2))));
        S = (if length LS = 1 then BoolArr (LS ! 0) else PyList (map BoolArr LS));
        P = (if length LS = 1 then FloatArr (LV ! 0) else PyList (map FloatArr LV))
    in PyTuple [BoolArr (NdArray [1, 2] [True, False]),
                FloatArr (NdArray [1, 2] [Fin 1, Fin (1 / 2)]),
                FloatArr (NdArray [1, 2] [Fin 1, Fin 0]),
                FloatArr (NdArray [1, 2] [Fin 1, Fin 4])] =
       (if True \<or> False \<or> True \<or> True
        then PyTuple ([S] @ (if True then [P] else []) @
                      (if False then [FloatArr CS] else []) @
                      (if True then [FloatArr MS] else []) @
                      (if True then [FloatArr CM] else []))
        else S))"
proof -
  have h: "fst (level_set (ex_ext [(Fin 1, Fin 1), (Fin 0, Fin 4)] [2]) ex_measure StNone
         (Scalar (Fin 0)) (Scalar (Fin (1 / 2))) True False True True) =
     Inr (PyTuple [BoolArr (NdArray [1, 2] [True, False]),
                   FloatArr (NdArray [1, 2] [Fin 1, Fin (1 / 2)]),
                   FloatArr (NdArray [1, 2] [Fin 1, Fin 0]),
                   FloatArr (NdArray [1, 2] [Fin 1, Fin 4])])"
    by (simp add: ex_eval)
  from h level_set_return_shape [OF h] show ?thesis by (rule conjI)
qed

subsection \<open>Lists of thresholds\<close>

lemma set_first_occurrences:
  "set (first_occurrences seen xs) = set xs - set seen"
  by (induction seen xs rule: first_occurrences.induct) auto

lemma recorded_empty_iff:
  "recorded text ms cs ls = [] \<longleftrightarrow> (\<forall>l \<in> set ls. cdf_warnings ms cs l = [])"
proof -
  have "recorded text ms cs ls = [] \<longleftrightarrow> set (recorded text ms cs ls) = {}" by simp
  also have "\<dots> \<longleftrightarrow> (\<forall>l \<in> set ls. cdf_warnings ms cs l = [])"
    unfolding recorded_def set_first_occurrences by auto
  finally show ?thesis .
qed

lemma recorded_nonempty:
  assumes "list_ex sqrt_invalid (data cs)" and "ls \<noteq> []"
  shows "recorded text ms cs ls \<noteq> []"
proof -
  obtain l where "l \<in> set ls" using assms(2) by (cases ls) auto
  moreover have "cdf_warnings ms cs l \<noteq> []"
    using assms(1) by (simp add: cdf_warnings_def Let_def)
  ultimately show ?thesis by (auto simp: recorded_empty_iff)
qed












subsection \<open>Lists or bare arrays\<close>

text \<open>
  Claim C4, at two threshold pairs with \<open>return_covar\<close> set: the level set is a list of
  two arrays, but the covariance component of the result is one bare array, not a list
  of two arrays. The docstring of \<open>level_set\<close> says that with lists of thresholds each
  array is replaced by a list of the arrays corresponding to each value of the
  thresholds.
\<close>

theorem level_set_covariance_is_one_array:
  "fst (level_set (ex_ext [(Fin 1, Fin 1), (Fin 0, Fin 4)] [2]) ex_measure StNone
         (ThrList [Fin 0, Fin 1]) (ThrList [Fin (1 / 2), Fin 0]) False True False False) =
     Inr (PyTuple [PyList [BoolArr (NdArray [1, 2] [True, False]),
                           BoolArr (NdArray [1, 2] [True, True])],
                   FloatArr (NdArray [1, 2] [Fin 1, Fin 4])]) \<and>
   \<not> list_all (is_array_list 2)
       (components (PyTuple [PyList [BoolArr (NdArray [1, 2] [True, False]),
                                     BoolArr (NdArray [1, 2] [True, True])],
                             FloatArr (NdArray [1, 2] [Fin 1, Fin 4])]))"
  by (simp add: ex_eval)

subsection \<open>Negative covariance\<close>

lemma original_warning_last:
  assumes "m \<noteq> []"
  shows "original_warning (ws @ [m]) = concat (map (\<lambda>m. m @ [CHR 0x0A]) ws) @ butlast m"
proof -
  obtain ys y where m: "m = ys @ [y]" using assms by (cases m rule: rev_cases) auto
  show ?thesis by (simp add: original_warning_def Let_def m)
qed

text \<open>
  With a negative covariance entry and at least one threshold, the probabilities are the
  ones computed on \<open>abs(covar_slice)\<close> and the call issues exactly one warning, which
  holds the recorded messages without the last character of the last one.
\<close>

lemma level_set_fallback:
  assumes "query_slices E (gp M) (make_index st) rcm = Inr (ms, cs, cm)"
    and "list_ex sqrt_invalid (data cs)" and "as_list lam \<noteq> []"
  shows "level_values E ms cs (as_list lam) =
           map (cdf_values (norm_cdf E) ms (amap np_abs cs)) (as_list lam) \<and>
         warned (snd (level_set E M st lam gam rp rc rm rcm)) =
           warned M @ [warning_message (recorded (warning_text E) ms cs (as_list lam))]"
  using recorded_nonempty [OF assms(2,3)]
  by (simp add: level_set_returns [OF assms(1)] level_values_def issue_warning_def Let_def)

text \<open>
  Claim C6, at a covariance array with a negative entry: the call returns the level set
  of the fallback probabilities and issues one warning, but the warning does not contain
  the text of the original warning, \<open>invalid value encountered in sqrt\<close>: the slice
  \<open>original_warning[:-2]\<close> removes the final newline and the last character of the
  text as well.
\<close>

theorem level_set_warning_text_truncated:
  "level_set (ex_ext [(Fin 1, Fin 1), (Fin 0, Fin (- 4))] [2]) ex_measure StNone
       (Scalar (Fin 0)) (Scalar (Fin (1 / 2))) False False False False =
     (Inr (BoolArr (NdArray [1, 2] [True, False])),
      ex_measure\<lparr>query_log := [(IdxTuple [full_slice, full_slice], False)],
        warned :=
          [''Warning encountered in cumulative density function computation. '' @ [CHR 0x0A] @
           ''This may be caused by an ill-conditioned kernel matrix causing a negative covariance.'' @
           [CHR 0x0A] @ ''Original warning: invalid value encountered in sqr'']\<rparr>) \<and>
   recorded numpy_text (NdArray [1, 2] [Fin 1, Fin 0]) (NdArray [1, 2] [Fin 1, Fin (- 4)]) [Fin 0] =
     [''invalid value encountered in sqrt'']"
  by (simp add: ex_eval)


section \<open>Properties of \<open>update\<close>\<close>

text \<open>
  Claim C1. On a failed transition, \<open>update\<close> returns the one-element array \<open>[0.]\<close> and
  appends exactly one row to the regressor, at the state-action index, with target
  \<open>[0.]\<close> and the flags forgettable \<open>[False]\<close>, make-forget \<open>[False]\<close>, unskippable
  \<open>[True]\<close>: whatever the override argument \<open>measure\<close> is, given or not. No query is made
  and nothing else of the object changes.
\<close>

theorem update_failed_appends_zero:
  "update E M state action new_state reward True done measure_arg =
     (Inr (NdArray [1] [Fin 0]),
      M\<lparr>gp := append_data E (gp M)
               \<lparr>r_input = stateaction E state action, r_target = NdArray [1] [Fin 0],
                r_forgettable = [False], r_make_forget = [False], r_unskippable = [True]\<rparr>,
        appended := appended M @
               [\<lparr>r_input = stateaction E state action, r_target = NdArray [1] [Fin 0],
                 r_forgettable = [False], r_make_forget = [False],
                 r_unskippable = [True]\<rparr>]\<rparr>)"
  by (simp add: update_def Let_def)

text \<open>
  Claim C10. The arguments \<open>reward\<close> and \<open>done\<close> have no influence on \<open>update\<close>: two calls
  that agree on everything else return the same value and leave the same object, with
  the same row appended.
\<close>

theorem update_ignores_reward_and_done:
  "update E M state action new_state reward failed done measure_arg =
   update E M state action new_state reward' failed done' measure_arg"
  by (simp add: update_def)

text \<open>
  Claim C2. On a transition that did not fail: without an override, if
  \<open>self.measure(new_state, lambda_threshold=0, gamma_threshold=self.gamma_measure)\<close>
  returns \<open>v\<close>, then \<open>update\<close> returns \<open>v\<close> and appends the row with target \<open>v\<close>. With an
  override, the target is the override coerced to at least one dimension: a Python
  scalar \<open>x\<close> becomes the one-element array \<open>[x]\<close>, a zero-dimensional array becomes the
  one-dimensional array of its element, and any other array is taken as it is; so the
  target has at least one dimension and the elements of the override. In both cases
  the row is appended at the state-action index with the flags forgettable \<open>[True]\<close>,
  make-forget \<open>[True]\<close>, unskippable \<open>[False]\<close>, and the value returned is the target
  written.
\<close>

theorem update_not_failed:
  "(measure E M new_state (Scalar (Fin 0)) (Some (Scalar (gamma_measure M))) = (Inr v, M1) \<longrightarrow>
      update E M state action new_state reward False done None =
        (Inr v,
         M1\<lparr>gp := append_data E (gp M1)
                  \<lparr>r_input = stateaction E state action, r_target = v,
                   r_forgettable = [True], r_make_forget = [True], r_unskippable = [False]\<rparr>,
            appended := appended M1 @
                  [\<lparr>r_input = stateaction E state action, r_target = v,
                    r_forgettable = [True], r_make_forget = [True],
                    r_unskippable = [False]\<rparr>]\<rparr>)) \<and>
   (let target = (case override of
                    PyScalar x \<Rightarrow> NdArray [1] [x]
                  | PyArr a \<Rightarrow> (if shape a = [] then NdArray [1] (data a) else a))
    in update E M state action new_state reward False done (Some override) =
         (Inr target,
          M\<lparr>gp := append_data E (gp M)
                   \<lparr>r_input = stateaction E state action, r_target = target,
                    r_forgettable = [True], r_make_forget = [True], r_unskippable = [False]\<rparr>,
            appended := appended M @
                   [\<lparr>r_input = stateaction E state action, r_target = target,
                     r_forgettable = [True], r_make_forget = [True],
                     r_unskippable = [False]\<rparr>]\<rparr>) \<and>
       shape target \<noteq> [] \<and> data target = (case override of PyScalar x \<Rightarrow> [x] | PyArr a \<Rightarrow> data a))"
  by (cases override)
     (simp_all add: update_def Let_def atleast_1d_num_def np_atleast_1d_def)

lemma ex_measure_value:
  "measure (ex_ext [(Fin 1, Fin 1), (Fin 0, Fin 4)] [2]) ex_measure StNone (Scalar (Fin 0))
       (Some (Scalar (gamma_measure ex_measure))) =
     (Inr (NdArray [1] [Fin (1 / 2)]),
      ex_measure\<lparr>query_log := [(IdxTuple [full_slice, full_slice], False)]\<rparr>)"
  by (simp add: measure_def ex_eval mean_axes_def mean_of_def np_atleast_1d_def upt_rec)

theorem update_not_failed_witness:
  "measure (ex_ext [(Fin 1, Fin 1), (Fin 0, Fin 4)] [2]) ex_measure StNone (Scalar (Fin 0))
       (Some (Scalar (gamma_measure ex_measure))) =
     (Inr (NdArray [1] [Fin (1 / 2)]),
      ex_measure\<lparr>query_log := [(IdxTuple [full_slice, full_slice], False)]\<rparr>) \<and>
   update (ex_ext [(Fin 1, Fin 1), (Fin 0, Fin 4)] [2]) ex_measure
       (NdArray [1] [Fin 0]) (NdArray [1] [Fin 1]) StNone (0 :: int) False False None =
     (Inr (NdArray [1] [Fin (1 / 2)]),
      \<lparr>gamma_measure = Fin (1 / 2),
       gp = [\<lparr>r_input = NdArray [2] [Fin 0, Fin 1], r_target = NdArray [1] [Fin (1 / 2)],
              r_forgettable = [True], r_make_forget = [True], r_unskippable = [False]\<rparr>],
       query_log = [(IdxTuple [full_slice, full_slice], False)],
       appended = [\<lparr>r_input = NdArray [2] [Fin 0, Fin 1], r_target = NdArray [1] [Fin (1 / 2)],
              r_forgettable = [True], r_make_forget = [True], r_unskippable = [False]\<rparr>],
       warned = []\<rparr>) \<and>
   update (ex_ext [(Fin 1, Fin 1), (Fin 0, Fin 4)] [2]) ex_measure
       (NdArray [1] [Fin 0]) (NdArray [1] [Fin 1]) StNone (0 :: int) False False
       (Some (PyArr (NdArray [] [Fin (3 / 4)]))) =
     (Inr (NdArray [1] [Fin (3 / 4)]),
      \<lparr>gamma_measure = Fin (1 / 2),
       gp = [\<lparr>r_input = NdArray [2] [Fin 0, Fin 1], r_target = NdArray [1] [Fin (3 / 4)],
              r_forgettable = [True], r_make_forget = [True], r_unskippable = [False]\<rparr>],
       query_log = [],
       appended = [\<lparr>r_input = NdArray [2] [Fin 0, Fin 1], r_target = NdArray [1] [Fin (3 / 4)],
              r_forgettable = [True], r_make_forget = [True], r_unskippable = [False]\<rparr>],
       warned = []\<rparr>)"
proof -
  let ?E = "ex_ext [(Fin 1, Fin 1), (Fin 0, Fin 4)] [2]"
  let ?M1 = "ex_measure\<lparr>query_log := [(IdxTuple [full_slice, full_slice], False)]\<rparr>"
  have h: "measure ?E ex_measure StNone (Scalar (Fin 0))
       (Some (Scalar (gamma_measure ex_measure))) = (Inr (NdArray [1] [Fin (1 / 2)]), ?M1)"
    by (rule ex_measure_value)
  note inst = update_not_failed [of ?E ex_measure StNone "NdArray [1] [Fin (1 / 2)]" ?M1
      "NdArray [1] [Fin 0]" "NdArray [1] [Fin 1]" "0 :: int" False
      "PyArr (NdArray [] [Fin (3 / 4)])"]
  from inst h have a: "update ?E ex_measure
       (NdArray [1] [Fin 0]) (NdArray [1] [Fin 1]) StNone (0 :: int) False False None =
     (Inr (NdArray [1] [Fin (1 / 2)]),
      \<lparr>gamma_measure = Fin (1 / 2),
       gp = [\<lparr>r_input = NdArray [2] [Fin 0, Fin 1], r_target = NdArray [1] [Fin (1 / 2)],
              r_forgettable = [True], r_make_forget = [True], r_unskippable = [False]\<rparr>],
       query_log = [(IdxTuple [full_slice, full_slice], False)],
       appended = [\<lparr>r_input = NdArray [2] [Fin 0, Fin 1], r_target = NdArray [1] [Fin (1 / 2)],
              r_forgettable = [True], r_make_forget = [True], r_unskippable = [False]\<rparr>],
       warned = []\<rparr>)"
    by (simp add: ex_ext_def ex_measure_def)
  from inst have b: "update ?E ex_measure
       (NdArray [1] [Fin 0]) (NdArray [1] [Fin 1]) StNone (0 :: int) False False
       (Some (PyArr (NdArray [] [Fin (3 / 4)]))) =
     (Inr (NdArray [1] [Fin (3 / 4)]),
      \<lparr>gamma_measure = Fin (1 / 2),
       gp = [\<lparr>r_input = NdArray [2] [Fin 0, Fin 1], r_target = NdArray [1] [Fin (3 / 4)],
              r_forgettable = [True], r_make_forget = [True], r_unskippable = [False]\<rparr>],
       query_log = [],
       appended = [\<lparr>r_input = NdArray [2] [Fin 0, Fin 1], r_target = NdArray [1] [Fin (3 / 4)],
              r_forgettable = [True], r_make_forget = [True], r_unskippable = [False]\<rparr>],
       warned = []\<rparr>)"
    by (simp add: ex_ext_def ex_measure_def Let_def)
  from h a b show ?thesis by blast
qed


section \<open>Properties of \<open>MaternSafety.load\<close>\<close>

lemma read_gamma_measure_absent:
  assumes "fs (path_join L load_folder (SAVE_NAME L)) = None"
  shows "read_gamma_measure L fs load_folder =
           Inl (ValueError (could_not_find (path_join L load_folder (SAVE_NAME L))))"
  using assms by (simp add: read_gamma_measure_def Let_def)

lemma read_gamma_measure_present:
  assumes "fs (path_join L load_folder (SAVE_NAME L)) = Some json_str"
    and "json_loads L json_str = Inr (JObject items)"
    and "map_of items ''gamma_measure'' = Some g"
  shows "read_gamma_measure L fs load_folder = Inr g"
  using assms by (simp add: read_gamma_measure_def Let_def getitem_str_def)

text \<open>
  Claim C7, as stated, fails. \<open>MaternGP.load\<close> runs before the state-dictionary file is
  opened and outside the \<open>try\<close>: where the folder holds neither file, \<open>load\<close> raises the
  regressor's \<open>FileNotFoundError\<close>, not the \<open>ValueError\<close> that names the missing
  state-dictionary file.
\<close>

theorem load_fails_before_the_file_is_opened:
  "load ex_loader_no_gp Map.empty ''run'' () JNull None None =
     Inl (FileNotFoundError ''run/gp_save'') \<and>
   Map.empty (path_join ex_loader_no_gp ''run'' (SAVE_NAME ex_loader_no_gp)) =
     (None :: string option) \<and>
   load ex_loader_no_gp Map.empty ''run'' () JNull None None \<noteq>
     Inl (ValueError (''Could not find file '' @
            path_join ex_loader_no_gp ''run'' (SAVE_NAME ex_loader_no_gp) @
            ''. Specify gamma_measure instead to load this model''))"
  by (simp add: load_def Let_def ex_loader_no_gp_def ex_loader_def)

text \<open>
  Claim C7, amended. Let \<open>gamma_measure\<close> be \<open>None\<close>. If \<open>MaternGP.load\<close> raises, \<open>load\<close>
  raises that error. If it returns and the state-dictionary file is absent, \<open>load\<close>
  raises the \<open>ValueError\<close> whose message names the path of the missing file, and
  returns no model. If it returns and the file is present and holds a dictionary with
  the key \<open>gamma_measure\<close>, the model returned (when the constructor returns) has the
  persisted value as its \<open>gamma_measure\<close>, and the loaded regressor installed.
\<close>

theorem load_reads_gamma_measure:
  "(gp_load L (path_join L load_folder (GP_SAVE_NAME L)) x_seed y_seed (x_seed = None) = Inl e \<longrightarrow>
      load L fs load_folder env JNull x_seed y_seed = Inl e) \<and>
   (gp_load L (path_join L load_folder (GP_SAVE_NAME L)) x_seed y_seed (x_seed = None) =
      Inr loaded \<longrightarrow>
      (fs (path_join L load_folder (SAVE_NAME L)) = None \<longrightarrow>
         load L fs load_folder env JNull x_seed y_seed =
           Inl (ValueError (''Could not find file '' @
                  path_join L load_folder (SAVE_NAME L) @
                  ''. Specify gamma_measure instead to load this model''))) \<and>
      (\<forall>json_str items g fresh.
         fs (path_join L load_folder (SAVE_NAME L)) = Some json_str \<and>
         json_loads L json_str = Inr (JObject items) \<and>
         map_of items ''gamma_measure'' = Some g \<and>
         gp_new L (if x_seed = None then Some (train_x L loaded) else x_seed)
                  (if x_seed = None then Some (train_y L loaded) else y_seed) = Inr fresh \<longrightarrow>
         load L fs load_folder env JNull x_seed y_seed =
           Inr \<lparr>ms_env = env, ms_gp = loaded, ms_gamma_measure = g\<rparr>))"
proof (intro conjI allI impI)
  assume "gp_load L (path_join L load_folder (GP_SAVE_NAME L)) x_seed y_seed (x_seed = None) =
            Inl e"
  then show "load L fs load_folder env JNull x_seed y_seed = Inl e"
    by (simp add: load_def Let_def)
next
  assume "gp_load L (path_join L load_folder (GP_SAVE_NAME L)) x_seed y_seed (x_seed = None) =
            Inr loaded"
    and "fs (path_join L load_folder (SAVE_NAME L)) = None"
  then show "load L fs load_folder env JNull x_seed y_seed =
      Inl (ValueError (''Could not find file '' @ path_join L load_folder (SAVE_NAME L) @
             ''. Specify gamma_measure instead to load this model''))"
    by (simp add: load_def Let_def read_gamma_measure_absent could_not_find_def)
next
  fix json_str items g fresh
  assume l: "gp_load L (path_join L load_folder (GP_SAVE_NAME L)) x_seed y_seed
               (x_seed = None) = Inr loaded"
  assume h: "fs (path_join L load_folder (SAVE_NAME L)) = Some json_str \<and>
            json_loads L json_str = Inr (JObject items) \<and>
            map_of items ''gamma_measure'' = Some g \<and>
            gp_new L (if x_seed = None then Some (train_x L loaded) else x_seed)
                     (if x_seed = None then Some (train_y L loaded) else y_seed) = Inr fresh"
  then have "read_gamma_measure L fs load_folder = Inr g"
    by (intro read_gamma_measure_present) auto
  then show "load L fs load_folder env JNull x_seed y_seed =
              Inr \<lparr>ms_env = env, ms_gp = loaded, ms_gamma_measure = g\<rparr>"
    using l h by (simp add: load_def Let_def)
qed

theorem load_reads_gamma_measure_witness:
  "load ex_loader_no_gp Map.empty ''run'' () JNull None None =
     Inl (FileNotFoundError ''run/gp_save'') \<and>
   load ex_loader Map.empty ''run'' () JNull None None =
     Inl (ValueError ''Could not find file run/model_save.json. Specify gamma_measure instead to load this model'') \<and>
   load ex_loader [''run/model_save.json'' \<mapsto> ex_state_dict_text] ''run'' () JNull None None =
     Inr \<lparr>ms_env = (), ms_gp = ''run/gp_save'', ms_gamma_measure = JNumber (Fin (1 / 2))\<rparr>"
proof -
  have e: "gp_load ex_loader_no_gp (path_join ex_loader_no_gp ''run'' (GP_SAVE_NAME ex_loader_no_gp))
             None None (None = (None :: nat option)) = Inl (FileNotFoundError ''run/gp_save'')"
    by (simp add: ex_loader_no_gp_def ex_loader_def)
  have h: "gp_load ex_loader (path_join ex_loader ''run'' (GP_SAVE_NAME ex_loader)) None None
             (None = (None :: nat option)) = Inr ''run/gp_save''"
    by (simp add: ex_loader_def)
  have c: "load ex_loader_no_gp Map.empty ''run'' () JNull None None =
     Inl (FileNotFoundError ''run/gp_save'')"
    using load_reads_gamma_measure [of ex_loader_no_gp "''run''" None None
        "FileNotFoundError ''run/gp_save''" Map.empty "()"] e
    by simp
  have a: "load ex_loader Map.empty ''run'' () JNull None None =
     Inl (ValueError ''Could not find file run/model_save.json. Specify gamma_measure instead to load this model'')"
    using load_reads_gamma_measure [of ex_loader "''run''" None None _ Map.empty "()"
        "''run/gp_save''"] h
    by (simp add: ex_loader_def)
  have b: "load ex_loader [''run/model_save.json'' \<mapsto> ex_state_dict_text] ''run'' () JNull None None =
     Inr \<lparr>ms_env = (), ms_gp = ''run/gp_save'', ms_gamma_measure = JNumber (Fin (1 / 2))\<rparr>"
    using load_reads_gamma_measure [of ex_loader "''run''" None None _
        "[''run/model_save.json'' \<mapsto> ex_state_dict_text]" "()" "''run/gp_save''"] h
    by (simp add: ex_loader_def)
  from c a b show ?thesis by blast
qed


section \<open>Properties of \<open>DiscreteProductSpace.indexof\<close>\<close>

lemma dps_indexof_same_length:
  assumes "length x = length sets"
  shows "dps_indexof sets x = map_raise (\<lambda>(x, s). indexof_of s x) (zip x sets)"
  using assms by (simp add: dps_indexof_def)

lemma map_raise_returns:
  assumes "map_raise f xs = Inr ys"
  shows "length ys = length xs \<and> (\<forall>i<length xs. f (xs ! i) = Inr (ys ! i))"
  using assms
proof (induction xs arbitrary: ys)
  case Nil
  then show ?case by simp
next
  case (Cons a xs)
  then show ?case by (auto split: sum.splits simp: nth_Cons')
qed

text \<open>
  Claim C9, at an input whose length differs from the number of sub-spaces: \<open>indexof\<close>
  raises \<open>NameError\<close>, not the size-mismatch \<open>ValueError\<close> that \<open>contains\<close> and
  \<open>__getitem__\<close> raise at the same lengths.
\<close>

theorem indexof_size_mismatch_raises_NameError:
  "dps_indexof [s1, s2] [x] = Inl (NameError ''name 'coordinates' is not defined'') \<and>
   dps_contains [s1, s2] [x] =
     Inl (ValueError ''Size mismatch: expected 2 coordinates, received 1'') \<and>
   dps_getitem [s1, s2] [i] =
     Inl (ValueError ''Size mismatch: expected 2 coordinates, received 1'')"
  by (simp add: dps_indexof_def dps_contains_def dps_getitem_def size_mismatch_def
      string_of_nat.simps digit_char_def)

section \<open>Properties of \<open>is_in_level_set\<close>\<close>











subsection \<open>A small variance with a smaller gap\<close>












end
